theory Spec2Isabelle
  imports Complex_Main "HOL-Library.Char_ord" "HOL-Library.List_Lexorder" "HOL-Library.Sublist"
begin

section \<open>Data model of \<^verbatim>\<open>service/rate.go\<close>\<close>

text \<open>
  A Go \<^verbatim>\<open>error\<close> is identified by the text its \<^verbatim>\<open>Error()\<close> method returns; a nil
  error is \<open>None\<close>. \<^verbatim>\<open>fmt.Errorf("ctx: %w", err)\<close> is the text \<open>ctx: \<close> followed by the
  wrapped error's text. A \<^verbatim>\<open>float64\<close> amount is a \<open>real\<close>: rounding is not modelled,
  only which operations are applied to which entries and in which order.
\<close>

type_synonym error = string

definition errWontJoin :: error where
  "errWontJoin = ''wont join because the channel is not accessible''"

definition errNotInTime :: error where
  "errNotInTime = ''order not in tracking time''"

definition Errorf_w :: "string \<Rightarrow> error \<Rightarrow> error" where
  "Errorf_w ctx err = ctx @ '': '' @ err"

definition MarkAsPaidReaction :: string where
  "MarkAsPaidReaction = ''money_mouth_face''"

text \<open>
  \<^verbatim>\<open>userDomain.User\<close>: the fields this file reads. A payment method is rendered by its
  \<^verbatim>\<open>String()\<close> method, which belongs to the user package and is a parameter here.
\<close>

record User =
  TransportID :: string
  PaymentPreferences :: "nat list"

record ParsedWoltGroupID =
  ID :: string

record Rate =
  WoltName :: string
  User :: "User option"
  Amount :: real

record GroupRate =
  Rates :: "Rate list"
  HostWoltUser :: string
  HostUser :: "User option"
  DeliveryRate :: int

record Link =
  Domain :: string
  URL :: string

record LinksRequest =
  Links :: "Link list"
  Channel :: string
  MessageID :: string

section \<open>Schedule gate\<close>

text \<open>
  A \<^verbatim>\<open>time.Time\<close> is an instant (seconds and nanoseconds since January 1, year 1,
  00:00:00 UTC) shown in a location; only the location's offset at that instant matters
  for \<^verbatim>\<open>Hour()\<close> and \<^verbatim>\<open>Minute()\<close>. A \<^verbatim>\<open>*time.Location\<close> maps an instant to its
  offset from UTC in seconds.
\<close>

record Time =
  sec :: int
  nsec :: nat
  offset :: int

type_synonym Location = "int \<Rightarrow> int"

definition IsZero :: "Time \<Rightarrow> bool" where
  "IsZero t \<longleftrightarrow> sec t = 0 \<and> nsec t = 0"

definition Hour :: "Time \<Rightarrow> int" where
  "Hour t = ((sec t + offset t) mod 86400) div 3600"

definition Minute :: "Time \<Rightarrow> int" where
  "Minute t = ((sec t + offset t) mod 3600) div 60"

definition In :: "Time \<Rightarrow> Location \<Rightarrow> Time" where
  "In t loc = t\<lparr>offset := loc (sec t)\<rparr>"

text \<open>
  \<^verbatim>\<open>shouldHandleOrder\<close>: \<open>now\<close> is what \<^verbatim>\<open>time.Now()\<close> returns, \<open>dontJoinAfter\<close> and
  \<open>dontJoinAfterTZ\<close> are the two fields of the service the function reads.
\<close>

definition currentTime :: "Location option \<Rightarrow> Time \<Rightarrow> Time" where
  "currentTime dontJoinAfterTZ now =
     (case dontJoinAfterTZ of None \<Rightarrow> now | Some tz \<Rightarrow> In now tz)"

definition shouldHandleOrder :: "Time \<Rightarrow> Location option \<Rightarrow> Time \<Rightarrow> bool" where
  "shouldHandleOrder dontJoinAfter dontJoinAfterTZ now =
     (if IsZero dontJoinAfter then True
      else let t = currentTime dontJoinAfterTZ now in
        if Hour t > Hour dontJoinAfter \<or>
           (Hour t = Hour dontJoinAfter \<and> Minute t \<ge> Minute dontJoinAfter)
        then False
        else True)"

text \<open>Wall-clock values for concrete checks: the given hour and minute of day 1, in UTC.\<close>

definition clock :: "int \<Rightarrow> int \<Rightarrow> Time" where
  "clock h m = \<lparr>sec = 86400 + h * 3600 + m * 60, nsec = 0, offset = 0\<rparr>"

section \<open>Rate calculator\<close>

text \<open>
  A Go \<^verbatim>\<open>map[string]float64\<close> is a finite partial map. Reading a missing key gives the
  zero value. \<^verbatim>\<open>sort.Strings\<close> orders strings bytewise, which is the lexicographic order
  on \<open>string\<close>.
\<close>

type_synonym rate_map = "string \<rightharpoonup> real"

definition index :: "rate_map \<Rightarrow> string \<Rightarrow> real" where
  "index m k = (case m k of None \<Rightarrow> 0 | Some v \<Rightarrow> v)"

definition getSortedKeys :: "rate_map \<Rightarrow> string list" where
  "getSortedKeys m = sorted_list_of_set (dom m)"

text \<open>The lines \<^verbatim>\<open>log.Printf\<close> and \<^verbatim>\<open>log.Println\<close> write, one constructor per call site.\<close>

datatype log_line =
    LogNoWoltLinks "Link list"
  | LogAlreadyWorking string
  | LogErrorGettingRate string error
  | LogErrorAddingDebts error
  | LogErrorGettingUser string error
  | LogUserNotFound string
  | LogMoreThanOneUser string "User list"
  | LogErrorConvertingOrder string error
  | LogErrorSavingOrder string error
  | LogErrorDeliveryRate error

text \<open>
  The loop of \<^verbatim>\<open>buildGroupRates\<close> over the sorted keys. \<open>ListUsers\<close> is the user
  directory asked for one name. Each iteration fills the next entry of \<^verbatim>\<open>Rates\<close>; the
  three \<^verbatim>\<open>continue\<close> branches leave its \<^verbatim>\<open>User\<close> nil.
\<close>

fun ratesLoop ::
  "(string \<Rightarrow> error + User list) \<Rightarrow> rate_map \<Rightarrow> string \<Rightarrow> string list \<Rightarrow>
   GroupRate \<times> log_line list \<Rightarrow> GroupRate \<times> log_line list" where
  "ratesLoop ListUsers woltRates host [] st = st"
| "ratesLoop ListUsers woltRates host (person # rest) (groupRate, lg) =
     (let rate = \<lparr>WoltName = person, User = None, Amount = index woltRates person\<rparr>;
          unresolved = groupRate\<lparr>Rates := Rates groupRate @ [rate]\<rparr>
      in case ListUsers person of
           Inl err \<Rightarrow>
             ratesLoop ListUsers woltRates host rest
               (unresolved, lg @ [LogErrorGettingUser person err])
         | Inr users \<Rightarrow>
             if length users = 0 then
               ratesLoop ListUsers woltRates host rest (unresolved, lg @ [LogUserNotFound person])
             else if length users \<noteq> 1 then
               ratesLoop ListUsers woltRates host rest
                 (unresolved, lg @ [LogMoreThanOneUser person users])
             else
               ratesLoop ListUsers woltRates host rest
                 ((if person = host then groupRate\<lparr>HostUser := Some (hd users)\<rparr> else groupRate)
                    \<lparr>Rates := Rates groupRate @ [rate\<lparr>User := Some (hd users)\<rparr>]\<rparr>,
                  lg))"

text \<open>
  \<^verbatim>\<open>buildGroupRates\<close> writes to the map it is given, which is the caller's: the result
  carries the map as the function leaves it, next to the \<^verbatim>\<open>GroupRate\<close> and the log.
\<close>

definition buildGroupRates ::
  "(string \<Rightarrow> error + User list) \<Rightarrow> rate_map \<Rightarrow> string \<Rightarrow> int \<Rightarrow>
   GroupRate \<times> rate_map \<times> log_line list" where
  "buildGroupRates ListUsers woltRates host deliveryRate =
     (let woltRates' = (if woltRates host = None then woltRates(host \<mapsto> 0) else woltRates);
          sortedKeys = getSortedKeys woltRates';
          groupRate = \<lparr>Rates = [], HostWoltUser = host, HostUser = None,
                       DeliveryRate = deliveryRate\<rparr>;
          (groupRate', lg) = ratesLoop ListUsers woltRates' host sortedKeys (groupRate, [])
      in (groupRate', woltRates', lg))"

text \<open>
  Lines 285 to 296 of \<^verbatim>\<open>getRateForGroup\<close>: what happens to the map \<^verbatim>\<open>RateByPerson\<close>
  returned once \<^verbatim>\<open>CalculateDeliveryRate\<close> has answered. The last component tells whether
  the notice about the missing delivery rate was sent. \<^verbatim>\<open>len(rates)\<close> is the number of
  keys; the \<^verbatim>\<open>range\<close> loop adds the share to every entry of the map. With no key the
  loop does nothing and the quotient is not used.
\<close>

definition addToAll :: "rate_map \<Rightarrow> real \<Rightarrow> rate_map" where
  "addToAll rates pricePerPerson = (\<lambda>person. map_option (\<lambda>rate. rate + pricePerPerson) (rates person))"

definition splitRates ::
  "(string \<Rightarrow> error + User list) \<Rightarrow> rate_map \<Rightarrow> string \<Rightarrow> error + int \<Rightarrow>
   (GroupRate \<times> rate_map \<times> log_line list) \<times> bool" where
  "splitRates ListUsers rates host delivery =
     (case delivery of
        Inl err \<Rightarrow>
          (case buildGroupRates ListUsers rates host 0 of
             (g, m, lg) \<Rightarrow> ((g, m, LogErrorDeliveryRate err # lg), True))
      | Inr deliveryRate \<Rightarrow>
          (let pricePerPerson = real_of_int deliveryRate / real (card (dom rates))
           in (buildGroupRates ListUsers (addToAll rates pricePerPerson) host deliveryRate, False)))"

text \<open>
  The rate calculator as the specification words it, for comparison: the host is
  inserted first, the share is the fee over the number of people counting the host, and
  every person, the host too, receives it.
\<close>

definition splitRates_spec ::
  "(string \<Rightarrow> error + User list) \<Rightarrow> rate_map \<Rightarrow> string \<Rightarrow> int \<Rightarrow> GroupRate" where
  "splitRates_spec ListUsers rates host deliveryRate =
     (let withHost = (if rates host = None then rates(host \<mapsto> 0) else rates);
          share = real_of_int deliveryRate / real (card (dom withHost))
      in fst (buildGroupRates ListUsers (addToAll withHost share) host deliveryRate))"

section \<open>Schedule gate: properties\<close>

text \<open>
  C7. With a configured (non-zero) cutoff whose time of day is 18:00, the schedule gate
  answers true when the current time of day, in the configured zone if there is one, is
  17:59, and false when it is 18:00 or 18:01; with no cutoff configured (the zero time)
  it answers true at every current time.
\<close>

theorem shouldHandleOrder_cutoff:
  "(\<not> IsZero c \<and> Hour c = 18 \<and> Minute c = 0 \<longrightarrow>
      (Hour (currentTime tz now) = 17 \<and> Minute (currentTime tz now) = 59
         \<longrightarrow> shouldHandleOrder c tz now) \<and>
      (Hour (currentTime tz now) = 18 \<and> Minute (currentTime tz now) = 0
         \<longrightarrow> \<not> shouldHandleOrder c tz now) \<and>
      (Hour (currentTime tz now) = 18 \<and> Minute (currentTime tz now) = 1
         \<longrightarrow> \<not> shouldHandleOrder c tz now)) \<and>
   (IsZero c \<longrightarrow> shouldHandleOrder c tz now)"
  by (simp add: shouldHandleOrder_def Let_def)

theorem shouldHandleOrder_cutoff_witness:
  "\<not> IsZero (clock 18 0) \<and> Hour (clock 18 0) = 18 \<and> Minute (clock 18 0) = 0 \<and>
   Hour (currentTime None (clock 17 59)) = 17 \<and> Minute (currentTime None (clock 17 59)) = 59 \<and>
   shouldHandleOrder (clock 18 0) None (clock 17 59) \<and>
   Hour (currentTime None (clock 18 0)) = 18 \<and> Minute (currentTime None (clock 18 0)) = 0 \<and>
   \<not> shouldHandleOrder (clock 18 0) None (clock 18 0) \<and>
   Hour (currentTime None (clock 18 1)) = 18 \<and> Minute (currentTime None (clock 18 1)) = 1 \<and>
   \<not> shouldHandleOrder (clock 18 0) None (clock 18 1) \<and>
   IsZero \<lparr>sec = 0, nsec = 0, offset = 0\<rparr> \<and>
   shouldHandleOrder \<lparr>sec = 0, nsec = 0, offset = 0\<rparr> None (clock 23 30)"
  using shouldHandleOrder_cutoff [of "clock 18 0" None "clock 17 59"]
        shouldHandleOrder_cutoff [of "clock 18 0" None "clock 18 0"]
        shouldHandleOrder_cutoff [of "clock 18 0" None "clock 18 1"]
        shouldHandleOrder_cutoff [of "\<lparr>sec = 0, nsec = 0, offset = 0\<rparr>" None "clock 23 30"]
  by (simp add: IsZero_def Hour_def Minute_def clock_def currentTime_def)

end
